theory Spec2Isabelle
  imports Complex_Main "HOL-Library.AList" "HOL-Library.Product_Lexorder" "HOL-Library.Word"
begin

section \<open>Photo2Map: the pipeline of main.py\<close>

text \<open>
  The program scans the folder \<^verbatim>\<open>images\<close> for JPEG files, reads their EXIF location and
  time tags, builds a time-sorted table, colours the rows by rank and writes a map document.
  Python floats are idealised as real numbers. Strings are byte strings (EXIF text tags
  are ASCII). Exceptions are values of the type \<open>error\<close>; a function that prints returns
  the printed lines together with its outcome.
\<close>

subsection \<open>Exceptions and printed output\<close>

datatype error =
  AttributeError | KeyError | UnboundLocalError | IndexError | ValueError
  | FileNotFoundError | OSError

text \<open>The clause \<^verbatim>\<open>except (AttributeError, KeyError)\<close>.\<close>

definition caught :: "error \<Rightarrow> bool" where
  "caught e = (e = AttributeError \<or> e = KeyError)"

type_synonym 'a io = "string list \<times> (error + 'a)"

text \<open>Lines printed before a computation are put in front of the lines it prints.\<close>

definition emit :: "string list \<Rightarrow> 'a io \<Rightarrow> 'a io" where
  "emit out m = (out @ fst m, snd m)"

definition bind_io :: "'a io \<Rightarrow> ('a \<Rightarrow> 'b io) \<Rightarrow> 'b io" where
  "bind_io m f = (case snd m of Inl e \<Rightarrow> (fst m, Inl e) | Inr x \<Rightarrow> emit (fst m) (f x))"

definition lift :: "error + 'a \<Rightarrow> 'a io" where
  "lift r = ([], r)"

text \<open>
  A list comprehension or a loop whose body may raise: the elements are processed in
  order and the first exception ends the whole evaluation.
\<close>

fun collect :: "('a \<Rightarrow> error + 'b) \<Rightarrow> 'a list \<Rightarrow> error + 'b list" where
  "collect f [] = Inr []"
| "collect f (x # xs) =
     (case f x of
        Inl e \<Rightarrow> Inl e
      | Inr y \<Rightarrow> (case collect f xs of Inl e \<Rightarrow> Inl e | Inr ys \<Rightarrow> Inr (y # ys)))"

text \<open>Indexing a tuple with a non-negative constant.\<close>

definition getitem :: "'a list \<Rightarrow> nat \<Rightarrow> error + 'a" where
  "getitem xs i = (if i < length xs then Inr (xs ! i) else Inl IndexError)"

subsection \<open>Strings and paths\<close>

definition upper_char :: "char \<Rightarrow> char" where
  "upper_char c =
     (case map_of (zip ''abcdefghijklmnopqrstuvwxyz'' ''ABCDEFGHIJKLMNOPQRSTUVWXYZ'') c of
        None \<Rightarrow> c
      | Some u \<Rightarrow> u)"

text \<open>\<^verbatim>\<open>str.upper\<close> on an ASCII string.\<close>

definition upper :: "string \<Rightarrow> string" where
  "upper s = map upper_char s"

definition startswith :: "string \<Rightarrow> string \<Rightarrow> bool" where
  "startswith s p = (take (length p) s = p)"

definition endswith :: "string \<Rightarrow> string \<Rightarrow> bool" where
  "endswith s p = (length p \<le> length s \<and> drop (length s - length p) s = p)"

type_synonym path = string

text \<open>\<^verbatim>\<open>Path(p).name\<close>: the final component of a path.\<close>

definition path_name :: "path \<Rightarrow> string" where
  "path_name p = rev (takeWhile (\<lambda>c. c \<noteq> CHR ''/'') (rev p))"

text \<open>\<^verbatim>\<open>Path(a) / b\<close> for a relative second operand.\<close>

definition joinpath :: "path \<Rightarrow> path \<Rightarrow> path" where
  "joinpath a b = (if b = [] then a else a @ ''/'' @ b)"

definition hexdigit :: "nat \<Rightarrow> char" where
  "hexdigit n = ''0123456789ABCDEF'' ! (n mod 16)"

text \<open>The format \<^verbatim>\<open>{:02X}\<close> applied to a value below 256.\<close>

definition hex2 :: "nat \<Rightarrow> string" where
  "hex2 n = [hexdigit (n div 16), hexdigit n]"

text \<open>
  \<^verbatim>\<open>Path.as_uri\<close> on POSIX: a relative path raises ValueError; every byte other than
  letters, digits and \<^verbatim>\<open>_.-~/\<close> is percent-encoded.
\<close>

definition quote_char :: "char \<Rightarrow> string" where
  "quote_char c =
     (if c \<in> set (''ABCDEFGHIJKLMNOPQRSTUVWXYZabcdefghijklmnopqrstuvwxyz'' @ ''0123456789_.-~/'')
      then [c] else CHR ''%'' # hex2 (of_char c))"

definition as_uri :: "path \<Rightarrow> error + string" where
  "as_uri p =
     (if startswith p ''/'' then Inr (''file://'' @ concat (map quote_char p))
      else Inl ValueError)"

subsection \<open>The file system and the metadata of one image\<close>

text \<open>
  The metadata handle of the \<^verbatim>\<open>exif\<close> library: every tag is optional, and reading an
  absent tag (by attribute or by key) raises AttributeError.
\<close>

record exif =
  gps_latitude :: "real list option"
  gps_latitude_ref :: "string option"
  gps_longitude :: "real list option"
  gps_longitude_ref :: "string option"
  gps_altitude :: "real option"
  datetime :: "string option"

definition exif_get :: "'a option \<Rightarrow> error + 'a" where
  "exif_get field = (case field of None \<Rightarrow> Inl AttributeError | Some v \<Rightarrow> Inr v)"

text \<open>
  What opening a file and parsing it gives: an exception (the file cannot be opened, or
  its content cannot be parsed), or a metadata handle.
\<close>

datatype file_content = Unreadable error | Metadata exif

datatype tooltip = Tooltip (img_src: string) (date_text: string)

datatype folium_element =
  is_marker: CircleMarker (location: "real \<times> real") (color: string) (fill_color: string)
    (radius: nat) (marker_tooltip: tooltip)
  | FitBounds (south_west: "real \<times> real") (north_east: "real \<times> real")

text \<open>
  The state the program acts on: the working directory, the files (absolute path and
  content, in the order in which the directory enumeration yields them), the map documents
  saved so far (a \<^verbatim>\<open>folium.Map\<close> is the sequence of elements added to it), the lines
  printed and the error dialogs shown.
\<close>

record world =
  cwd :: path
  files :: "(path \<times> file_content) list"
  documents :: "(path \<times> folium_element list) list"
  stdout :: "string list"
  dialogs :: "(string \<times> string) list"

text \<open>\<^verbatim>\<open>Path.resolve\<close>, symbolic links apart.\<close>

definition resolve :: "world \<Rightarrow> path \<Rightarrow> path" where
  "resolve w p = (if startswith p ''/'' then p else cwd w @ ''/'' @ p)"

text \<open>
  \<^verbatim>\<open>folder.rglob('*.jpg')\<close> for a folder relative to the working directory: the entries
  below the folder whose name ends in \<^verbatim>\<open>.jpg\<close>, as paths relative to the working
  directory.
\<close>

definition rglob :: "world \<Rightarrow> path \<Rightarrow> path list" where
  "rglob w folder =
     map (\<lambda>p. drop (length (cwd w) + 1) p)
       (filter (\<lambda>p. startswith p (cwd w @ ''/'' @ folder @ ''/'') \<and> endswith (path_name p) ''.jpg'')
          (map fst (files w)))"

definition read_exif_data :: "world \<Rightarrow> path \<Rightarrow> error + exif" where
  "read_exif_data w file_path =
     (case map_of (files w) (resolve w file_path) of
        None \<Rightarrow> Inl FileNotFoundError
      | Some (Unreadable e) \<Rightarrow> Inl e
      | Some (Metadata d) \<Rightarrow> Inr d)"

subsection \<open>Coordinate conversion\<close>

text \<open>
  The local variable \<^verbatim>\<open>mul\<close> is \<open>None\<close> while it is unbound: the last branch prints and
  binds nothing, so the \<^verbatim>\<open>return\<close> statement raises UnboundLocalError there.
\<close>

definition hemisphere_mul :: "string \<Rightarrow> real option" where
  "hemisphere_mul ref =
     (if upper ref \<in> set [''W'', ''S''] then Some (- 1)
      else if upper ref \<in> set [''E'', ''N''] then Some 1
      else None)"

definition convert_coords_to_decimal :: "real list \<Rightarrow> string \<Rightarrow> real io" where
  "convert_coords_to_decimal coords ref =
     (case hemisphere_mul ref of
        None \<Rightarrow>
          ([''Incorrect hemisphere reference. Expecting one of 'N', 'S', 'E' or 'W', got ''
              @ ref @ '' instead.''],
           Inl UnboundLocalError)
      | Some mul \<Rightarrow>
          ([], case getitem coords 0 of Inl e \<Rightarrow> Inl e | Inr d \<Rightarrow>
               (case getitem coords 1 of Inl e \<Rightarrow> Inl e | Inr m \<Rightarrow>
               (case getitem coords 2 of Inl e \<Rightarrow> Inl e | Inr s \<Rightarrow>
                  Inr (mul * (d + m / 60 + s / 3600))))))"

definition get_decimal_coord_body :: "exif \<Rightarrow> (real \<times> real \<times> real) io" where
  "get_decimal_coord_body exif_data =
     bind_io (lift (exif_get (gps_latitude exif_data))) (\<lambda>lat_dms.
     bind_io (lift (exif_get (gps_latitude_ref exif_data))) (\<lambda>lat_ref.
     bind_io (convert_coords_to_decimal lat_dms lat_ref) (\<lambda>lat.
     bind_io (lift (exif_get (gps_longitude exif_data))) (\<lambda>lon_dms.
     bind_io (lift (exif_get (gps_longitude_ref exif_data))) (\<lambda>lon_ref.
     bind_io (convert_coords_to_decimal lon_dms lon_ref) (\<lambda>lon.
     bind_io (lift (exif_get (gps_altitude exif_data))) (\<lambda>alt.
     lift (Inr (lat, lon, alt)))))))))"

text \<open>The handler prints a line and raises the exception again.\<close>

definition get_decimal_coord_from_exif :: "exif \<Rightarrow> (real \<times> real \<times> real) io" where
  "get_decimal_coord_from_exif exif_data =
     (case get_decimal_coord_body exif_data of
        (out, Inl e) \<Rightarrow>
          (if caught e
           then (out @ [''Image does not contain spatial data or data is invalid.''], Inl e)
           else (out, Inl e))
      | (out, Inr coord) \<Rightarrow> (out, Inr coord))"

subsection \<open>Folder scan\<close>

record 't photo_record =
  latitude :: real
  longitude :: real
  altitude :: real
  filepath :: string
  timestamp :: 't

text \<open>
  The dictionary \<^verbatim>\<open>coord_dict\<close> keeps its keys in insertion order; assigning to a key that
  is present keeps its place. The inner dictionary of a file has its five keys when the
  iteration ends.
\<close>

type_synonym coord_dict = "(string \<times> string option photo_record) list"

definition inner_dict :: "world \<Rightarrow> path \<Rightarrow> exif \<Rightarrow> real \<times> real \<times> real \<Rightarrow> string option photo_record" where
  "inner_dict w f data coord =
     \<lparr>latitude = fst coord, longitude = fst (snd coord), altitude = snd (snd coord),
      filepath = resolve w f, timestamp = datetime data\<rparr>"

fun scan_loop :: "world \<Rightarrow> (path \<times> exif) list \<Rightarrow> coord_dict \<Rightarrow> coord_dict io" where
  "scan_loop w [] coord_dict = ([], Inr coord_dict)"
| "scan_loop w ((f, data) # rest) coord_dict =
     (case get_decimal_coord_from_exif data of
        (out, Inl e) \<Rightarrow>
          (if caught e then emit out (scan_loop w rest coord_dict) else (out, Inl e))
      | (out, Inr coord) \<Rightarrow>
          emit (out @
                (case datetime data of
                   None \<Rightarrow> [''Photo '' @ path_name f @ '' does not contain datetime information.'']
                 | Some t \<Rightarrow> []))
            (scan_loop w rest (AList.update f (inner_dict w f data coord) coord_dict)))"

definition read_spatial_data_from_folder :: "world \<Rightarrow> path \<Rightarrow> coord_dict io" where
  "read_spatial_data_from_folder w folder =
     (let source_files = rglob w folder in
      case collect (read_exif_data w) source_files of
        Inl e \<Rightarrow> ([], Inl e)
      | Inr exif \<Rightarrow> scan_loop w (zip source_files exif) [])"

subsection \<open>Table, colours and map\<close>

text \<open>A parsed date-time: year, month, day, hour, minute, second, in chronological order.\<close>

type_synonym datetime64 = "nat \<times> nat \<times> nat \<times> nat \<times> nat \<times> nat"

text \<open>
  The libraries' tables and parsers are parameters: \<open>plasma\<close> is the colour map called
  with \<^verbatim>\<open>bytes=True\<close>; \<open>strptime\<close> is what \<^verbatim>\<open>pandas.to_datetime\<close> does
  with one string under the format \<^verbatim>\<open>%Y:%m:%d %H:%M:%S\<close>: it raises, or gives the null
  date-time, or a date-time.
\<close>

record env =
  plasma :: "real \<Rightarrow> 8 word \<times> 8 word \<times> 8 word \<times> 8 word"
  strptime :: "string \<Rightarrow> error + datetime64 option"

definition rgba_to_hex :: "8 word \<times> 8 word \<times> 8 word \<times> 8 word \<Rightarrow> string" where
  "rgba_to_hex rgba =
     (case rgba of (r, g, b, a) \<Rightarrow> ''#'' @ hex2 (unat r) @ hex2 (unat g) @ hex2 (unat b))"

text \<open>An absent value of the column becomes the null date-time without parsing.\<close>

definition to_datetime :: "env \<Rightarrow> string option list \<Rightarrow> error + datetime64 option list" where
  "to_datetime e column =
     collect (\<lambda>v. case v of None \<Rightarrow> Inr None | Some s \<Rightarrow> strptime e s) column"

definition set_timestamp :: "'a photo_record \<Rightarrow> 'b \<Rightarrow> 'b photo_record" where
  "set_timestamp r t =
     \<lparr>latitude = latitude r, longitude = longitude r, altitude = altitude r,
      filepath = filepath r, timestamp = t\<rparr>"

text \<open>
  \<^verbatim>\<open>DataFrame.sort_values\<close> with its defaults: ascending, null values last. Rows with equal
  keys are kept in their order here.
\<close>

definition sort_values :: "datetime64 option photo_record list \<Rightarrow> datetime64 option photo_record list" where
  "sort_values df =
     sort_key (\<lambda>r. the (timestamp r)) (filter (\<lambda>r. timestamp r \<noteq> None) df)
     @ filter (\<lambda>r. timestamp r = None) df"

text \<open>
  The table of \<^verbatim>\<open>generate_map\<close>: one row per key of the dictionary. A frame built from an
  empty dictionary has no column, and reading its \<^verbatim>\<open>timestamp\<close> attribute raises
  AttributeError.
\<close>

definition build_table :: "env \<Rightarrow> coord_dict \<Rightarrow> error + datetime64 option photo_record list" where
  "build_table e res =
     (let df = map snd res in
      if df = [] then Inl AttributeError
      else case to_datetime e (map timestamp df) of
             Inl err \<Rightarrow> Inl err
           | Inr ts \<Rightarrow> Inr (sort_values (map2 set_timestamp df ts)))"

text \<open>\<^verbatim>\<open>numpy.linspace\<close> with the end point included.\<close>

definition linspace :: "real \<Rightarrow> real \<Rightarrow> nat \<Rightarrow> real list" where
  "linspace start stop num =
     (if num = 0 then []
      else if num = 1 then [start]
      else map (\<lambda>i. start + real i * ((stop - start) / real (num - 1))) [0..<num])"

definition pad2 :: "nat \<Rightarrow> string" where
  "pad2 n = [''0123456789'' ! (n div 10 mod 10), ''0123456789'' ! (n mod 10)]"

text \<open>\<^verbatim>\<open>numpy.datetime_as_string\<close> with unit \<^verbatim>\<open>m\<close>.\<close>

definition datetime_as_string :: "datetime64 option \<Rightarrow> string" where
  "datetime_as_string d =
     (case d of
        None \<Rightarrow> ''NaT''
      | Some (y, mo, dy, h, mi, s) \<Rightarrow>
          pad2 (y div 100) @ pad2 y @ ''-'' @ pad2 mo @ ''-'' @ pad2 dy @ ''T'' @ pad2 h
            @ '':'' @ pad2 mi)"

definition circle_marker :: "env \<Rightarrow> datetime64 option photo_record \<times> real \<Rightarrow> error + folium_element" where
  "circle_marker e row =
     (case row of (r, col) \<Rightarrow>
        (case as_uri (filepath r) of
           Inl err \<Rightarrow> Inl err
         | Inr photo_url \<Rightarrow>
             Inr (CircleMarker (latitude r, longitude r)
                    (rgba_to_hex (plasma e col)) (rgba_to_hex (plasma e col)) 6
                    (Tooltip photo_url (datetime_as_string (timestamp r))))))"

definition generate_map :: "env \<Rightarrow> world \<Rightarrow> world \<times> (error + path)" where
  "generate_map e w =
     (case read_spatial_data_from_folder w ''images'' of
        (out, Inl err) \<Rightarrow> (w\<lparr>stdout := stdout w @ out\<rparr>, Inl err)
      | (out, Inr res) \<Rightarrow>
          (let w1 = w\<lparr>stdout := stdout w @ out\<rparr> in
           case build_table e res of
             Inl err \<Rightarrow> (w1, Inl err)
           | Inr df \<Rightarrow>
               (let color_mapping = linspace 0 1 (length df);
                    sw = (Max (set (map latitude df)) + 3, Min (set (map longitude df)) - 3);
                    ne = (Min (set (map latitude df)) - 3, Max (set (map longitude df)) + 3)
                in case collect (circle_marker e) (zip df color_mapping) of
                     Inl err \<Rightarrow> (w1, Inl err)
                   | Inr markers \<Rightarrow>
                       (let m = markers @ [FitBounds sw ne];
                            map_file = resolve w1 ''map.html''
                        in (w1\<lparr>documents := AList.update map_file m (documents w1)\<rparr>,
                            Inr map_file)))))"

subsection \<open>Upload\<close>

text \<open>
  \<^verbatim>\<open>Path.replace\<close>: the source must exist; the target takes its content, replacing a file
  that is there.
\<close>

definition replace :: "world \<Rightarrow> path \<Rightarrow> path \<Rightarrow> error + world" where
  "replace w src dst =
     (case map_of (files w) (resolve w src) of
        None \<Rightarrow> Inl FileNotFoundError
      | Some content \<Rightarrow>
          (if resolve w src = resolve w dst then Inr w
           else Inr (w\<lparr>files := AList.update (resolve w dst) content
                                  (AList.delete (resolve w src) (files w))\<rparr>)))"

definition showerror :: "world \<Rightarrow> world" where
  "showerror w =
     w\<lparr>dialogs := dialogs w @
        [(''Upload Error'',
          ''An error occurred during upload. Please ensure you are uploading a valid .jpg image.'')]\<rparr>"

text \<open>
  \<open>file_path\<close> is what the file-selection dialog returns: the chosen path, or the empty
  string when the user cancels.
\<close>

definition upload_image :: "env \<Rightarrow> string \<Rightarrow> world \<Rightarrow> world" where
  "upload_image e file_path w =
     (if file_path \<noteq> [] then
        (let dest_path = joinpath ''images'' (path_name file_path) in
         case replace w file_path dest_path of
           Inl err \<Rightarrow> showerror w
         | Inr w1 \<Rightarrow>
             (case generate_map e w1 of
                (w2, Inl err) \<Rightarrow> showerror w2
              | (w2, Inr map_file) \<Rightarrow> w2))
      else w)"

subsection \<open>Conditions on the tags of a photo\<close>




subsection \<open>Sample inputs\<close>

text \<open>
  A two-colour stand-in for the colour map (the end points of the plasma scale); it
  instantiates the environment in the examples below.
\<close>

definition sample_plasma :: "real \<Rightarrow> 8 word \<times> 8 word \<times> 8 word \<times> 8 word" where
  "sample_plasma x = (if x < 1 / 2 then (13, 8, 135, 255) else (240, 249, 33, 255))"

text \<open>
  The parser of the examples follows the pattern the library builds from the format
  \<^verbatim>\<open>%Y:%m:%d %H:%M:%S\<close>, on ASCII strings: a year of four digits; month, day,
  hour, minute and second of one or two digits within the ranges of the pattern (a day
  may be written with a space in front, a second may be 60 or 61); colons between them and
  one or more white-space characters between day and hour; nothing before or after. The
  empty string and the library's null strings give the null date-time. The date must
  exist in the calendar and in a year from 1 on, and a second of 60 or 61 runs over into
  the next minute. The resolution is taken to hold every such year (the nanosecond
  resolution of older versions of the library raises outside the years 1677 to 2262).
\<close>

definition is_digit :: "char \<Rightarrow> bool" where
  "is_digit c = (c \<in> set ''0123456789'')"

definition is_space :: "char \<Rightarrow> bool" where
  "is_space c = ((of_char c :: nat) \<in> set [9, 10, 11, 12, 13, 28, 29, 30, 31, 32])"

fun split_on :: "char \<Rightarrow> string \<Rightarrow> string list" where
  "split_on sep [] = [[]]"
| "split_on sep (c # cs) =
     (if c = sep then [] # split_on sep cs
      else (case split_on sep cs of [] \<Rightarrow> [[c]] | p # ps \<Rightarrow> (c # p) # ps))"

definition number :: "string \<Rightarrow> nat" where
  "number s = foldl (\<lambda>n c. 10 * n + (of_char c - 48)) 0 (filter is_digit s)"

definition year_text :: "string \<Rightarrow> bool" where
  "year_text t = (length t = 4 \<and> list_all is_digit t)"

definition month_text :: "string \<Rightarrow> bool" where
  "month_text t =
     (case t of
        [a] \<Rightarrow> a \<in> set ''123456789''
      | [a, b] \<Rightarrow> a = CHR ''1'' \<and> b \<in> set ''012'' \<or> a = CHR ''0'' \<and> b \<in> set ''123456789''
      | _ \<Rightarrow> False)"

definition day_text :: "string \<Rightarrow> bool" where
  "day_text t =
     (case t of
        [a] \<Rightarrow> a \<in> set ''123456789''
      | [a, b] \<Rightarrow> a = CHR ''3'' \<and> b \<in> set ''01'' \<or> a \<in> set ''12'' \<and> is_digit b
                  \<or> a \<in> set ''0 '' \<and> b \<in> set ''123456789''
      | _ \<Rightarrow> False)"

definition hour_text :: "string \<Rightarrow> bool" where
  "hour_text t =
     (case t of
        [a] \<Rightarrow> is_digit a
      | [a, b] \<Rightarrow> a = CHR ''2'' \<and> b \<in> set ''0123'' \<or> a \<in> set ''01'' \<and> is_digit b
      | _ \<Rightarrow> False)"

definition minute_text :: "string \<Rightarrow> bool" where
  "minute_text t =
     (case t of
        [a] \<Rightarrow> is_digit a
      | [a, b] \<Rightarrow> a \<in> set ''012345'' \<and> is_digit b
      | _ \<Rightarrow> False)"

definition second_text :: "string \<Rightarrow> bool" where
  "second_text t =
     (case t of
        [a] \<Rightarrow> is_digit a
      | [a, b] \<Rightarrow> a = CHR ''6'' \<and> b \<in> set ''01'' \<or> a \<in> set ''012345'' \<and> is_digit b
      | _ \<Rightarrow> False)"

definition days_in_month :: "nat \<Rightarrow> nat \<Rightarrow> nat" where
  "days_in_month y m =
     (if m = 2 then (if (if y mod 100 = 0 then y mod 400 = 0 else y mod 4 = 0) then 29 else 28)
      else if m \<in> set [4, 6, 9, 11] then 30 else 31)"

definition carry_second :: "datetime64 \<Rightarrow> datetime64" where
  "carry_second t =
     (case t of (y, mo, d, h, mi, s) \<Rightarrow>
        if s < 60 then (y, mo, d, h, mi, s)
        else if mi + 1 < 60 then (y, mo, d, h, mi + 1, s - 60)
        else if h + 1 < 24 then (y, mo, d, h + 1, 0, s - 60)
        else if d < days_in_month y mo then (y, mo, d + 1, 0, 0, s - 60)
        else if mo < 12 then (y, mo + 1, 1, 0, 0, s - 60)
        else (y + 1, 1, 1, 0, 0, s - 60))"

definition sample_strptime :: "string \<Rightarrow> error + datetime64 option" where
  "sample_strptime s =
     (if s = [] \<or> s \<in> set [''NaT'', ''nat'', ''NAT'', ''nan'', ''NaN'', ''NAN''] then Inr None
      else case split_on CHR '':'' s of
        [y, mo, mid, mi, sec] \<Rightarrow>
          (let h = rev (takeWhile is_digit (rev mid));
               rest = rev (dropWhile is_digit (rev mid));
               d = rev (dropWhile is_space (rev rest))
           in if year_text y \<and> month_text mo \<and> day_text d \<and> d \<noteq> rest \<and> hour_text h
                 \<and> minute_text mi \<and> second_text sec
              then (if 1 \<le> number y \<and> number d \<le> days_in_month (number y) (number mo)
                    then Inr (Some (carry_second
                           (number y, number mo, number d, number h, number mi, number sec)))
                    else Inl ValueError)
              else Inl ValueError)
      | _ \<Rightarrow> Inl ValueError)"

definition sample_env :: env where
  "sample_env = \<lparr>plasma = sample_plasma, strptime = sample_strptime\<rparr>"

definition paris :: exif where
  "paris = \<lparr>gps_latitude = Some [48, 30, 0], gps_latitude_ref = Some ''N'',
             gps_longitude = Some [2, 15, 0], gps_longitude_ref = Some ''E'',
             gps_altitude = Some 35, datetime = Some ''2021:05:03 10:00:00''\<rparr>"

definition rio :: exif where
  "rio = \<lparr>gps_latitude = Some [22, 45, 0], gps_latitude_ref = Some ''S'',
           gps_longitude = Some [43, 30, 0], gps_longitude_ref = Some ''W'',
           gps_altitude = Some 5, datetime = Some ''2021:05:01 09:30:00''\<rparr>"

definition sydney :: exif where
  "sydney = \<lparr>gps_latitude = Some [33, 45, 0], gps_latitude_ref = Some ''s'',
              gps_longitude = Some [151, 0, 0], gps_longitude_ref = Some ''e'',
              gps_altitude = Some 3, datetime = None\<rparr>"

definition folder_of :: "(path \<times> file_content) list \<Rightarrow> world" where
  "folder_of fs =
     \<lparr>cwd = ''/home/user'', files = fs, documents = [], stdout = [], dialogs = []\<rparr>"

definition sample_world :: world where
  "sample_world = folder_of
     [(''/home/user/images/paris.jpg'', Metadata paris),
      (''/home/user/notes.txt'', Unreadable OSError),
      (''/home/user/images/trip/rio.jpg'', Metadata rio),
      (''/home/user/images/sydney.jpg'', Metadata sydney)]"

text \<open>The dictionary the scan builds for this folder, and its table.\<close>

definition sample_dict :: coord_dict where
  "sample_dict =
     [(''images/paris.jpg'',
       \<lparr>latitude = 97 / 2, longitude = 9 / 4, altitude = 35,
        filepath = ''/home/user/images/paris.jpg'',
        timestamp = Some ''2021:05:03 10:00:00''\<rparr>),
      (''images/trip/rio.jpg'',
       \<lparr>latitude = - (91 / 4), longitude = - (87 / 2), altitude = 5,
        filepath = ''/home/user/images/trip/rio.jpg'',
        timestamp = Some ''2021:05:01 09:30:00''\<rparr>),
      (''images/sydney.jpg'',
       \<lparr>latitude = - (135 / 4), longitude = 151, altitude = 3,
        filepath = ''/home/user/images/sydney.jpg'', timestamp = None\<rparr>)]"

definition sample_table :: "datetime64 option photo_record list" where
  "sample_table =
     [\<lparr>latitude = - (91 / 4), longitude = - (87 / 2), altitude = 5,
       filepath = ''/home/user/images/trip/rio.jpg'',
       timestamp = Some (2021, 5, 1, 9, 30, 0)\<rparr>,
      \<lparr>latitude = 97 / 2, longitude = 9 / 4, altitude = 35,
       filepath = ''/home/user/images/paris.jpg'',
       timestamp = Some (2021, 5, 3, 10, 0, 0)\<rparr>,
      \<lparr>latitude = - (135 / 4), longitude = 151, altitude = 3,
       filepath = ''/home/user/images/sydney.jpg'', timestamp = None\<rparr>]"

definition sample_markers :: "folium_element list" where
  "sample_markers =
     [CircleMarker (- (91 / 4), - (87 / 2)) ''#0D0887'' ''#0D0887'' 6
        (Tooltip ''file:///home/user/images/trip/rio.jpg'' ''2021-05-01T09:30''),
      CircleMarker (97 / 2, 9 / 4) ''#F0F921'' ''#F0F921'' 6
        (Tooltip ''file:///home/user/images/paris.jpg'' ''2021-05-03T10:00''),
      CircleMarker (- (135 / 4), 151) ''#F0F921'' ''#F0F921'' 6
        (Tooltip ''file:///home/user/images/sydney.jpg'' ''NaT'')]"

text \<open>The state after the pipeline has run on this folder.\<close>

definition sample_result :: world where
  "sample_result =
     sample_world
       \<lparr>stdout := [''Photo sydney.jpg does not contain datetime information.''],
        documents :=
          [(''/home/user/map.html'',
            sample_markers @ [FitBounds (103 / 2, - (93 / 2)) (- (147 / 4), 154)])]\<rparr>"


text \<open>The same folder with an entry that cannot be opened.\<close>

definition broken_world :: world where
  "broken_world = folder_of
     [(''/home/user/images/paris.jpg'', Metadata paris),
      (''/home/user/images/broken.jpg'', Unreadable OSError)]"

text \<open>A photo whose latitude reference is not a hemisphere letter, before a valid one.\<close>

definition badref_world :: world where
  "badref_world = folder_of
     [(''/home/user/images/odd.jpg'', Metadata (paris\<lparr>gps_latitude_ref := Some ''X''\<rparr>)),
      (''/home/user/images/trip/rio.jpg'', Metadata rio)]"



text \<open>A photo with latitude and longitude but no altitude, before a complete one.\<close>

definition noalt_world :: world where
  "noalt_world = folder_of
     [(''/home/user/images/paris.jpg'', Metadata (paris\<lparr>gps_altitude := None\<rparr>)),
      (''/home/user/images/trip/rio.jpg'', Metadata rio)]"

section \<open>Properties\<close>

subsection \<open>Evaluation and loops\<close>

lemmas sample_defs = folder_of_def paris_def rio_def sydney_def sample_env_def

lemmas path_defs =
  rglob_def startswith_def endswith_def path_name_def resolve_def read_exif_data_def

lemma upper_hemisphere:
  "upper ''N'' = ''N''" "upper ''n'' = ''N''" "upper ''E'' = ''E''" "upper ''e'' = ''E''"
  "upper ''S'' = ''S''" "upper ''s'' = ''S''" "upper ''W'' = ''W''" "upper ''w'' = ''W''"
  by (simp_all add: upper_def upper_char_def)

lemma upper_X: "upper ''X'' = ''X''"
  by (simp add: upper_def upper_char_def)

lemmas coord_defs =
  get_decimal_coord_from_exif_def get_decimal_coord_body_def bind_io_def lift_def exif_get_def
  convert_coords_to_decimal_def hemisphere_mul_def getitem_def upper_hemisphere emit_def
  caught_def


lemma collect_Inl: "collect f xs = Inl e \<Longrightarrow> \<exists>x \<in> set xs. f x = Inl e"
  by (induction xs) (auto split: sum.splits)

lemma collect_fails: "x \<in> set xs \<Longrightarrow> f x = Inl e \<Longrightarrow> \<exists>e'. collect f xs = Inl e'"
  by (induction xs) (auto split: sum.splits)

lemma collect_length: "collect f xs = Inr ys \<Longrightarrow> length ys = length xs"
  by (induction xs arbitrary: ys) (auto split: sum.splits)



subsection \<open>Coordinate conversion\<close>

text \<open>
  Claim C4. For a tuple of degrees, minutes and seconds, \<open>convert_coords_to_decimal\<close>
  returns \<open>deg + min/60 + sec/3600\<close> when the reference is N or E in either case, and the
  negation of that magnitude when it is S or W in either case; it prints nothing.
\<close>

theorem convert_coords_to_decimal_signed:
  "(ref \<in> {''N'', ''n'', ''E'', ''e''} \<longrightarrow>
      convert_coords_to_decimal [deg, mi, sec] ref = ([], Inr (deg + mi / 60 + sec / 3600)))
   \<and> (ref \<in> {''S'', ''s'', ''W'', ''w''} \<longrightarrow>
      convert_coords_to_decimal [deg, mi, sec] ref = ([], Inr (- (deg + mi / 60 + sec / 3600))))"
  by (auto simp: convert_coords_to_decimal_def hemisphere_mul_def getitem_def upper_hemisphere)

theorem convert_coords_to_decimal_signed_witness:
  "convert_coords_to_decimal [48, 51, 24] ''n'' = ([], Inr (48 + 51 / 60 + 24 / 3600))
   \<and> convert_coords_to_decimal [2, 21, 36] ''W'' = ([], Inr (- (2 + 21 / 60 + 36 / 3600)))"
  using convert_coords_to_decimal_signed [of "''n''" 48 51 24]
    convert_coords_to_decimal_signed [of "''W''" 2 21 36]
  by simp

subsection \<open>Folder scan\<close>

text \<open>
  Claim C1, as the code has it. The scan reads every matching file before it builds any
  record, outside every handler: when a file of the folder cannot be opened or parsed, the
  scan ends with the exception of such a file, having printed nothing and produced no
  record.
\<close>

theorem scan_aborts_on_unreadable_file:
  assumes "f \<in> set (rglob w folder)" and "read_exif_data w f = Inl e"
  shows "\<exists>f' e'. f' \<in> set (rglob w folder) \<and> read_exif_data w f' = Inl e'
           \<and> read_spatial_data_from_folder w folder = ([], Inl e')"
proof -
  obtain e' where c: "collect (read_exif_data w) (rglob w folder) = Inl e'"
    using collect_fails [of f "rglob w folder" "read_exif_data w" e] assms by blast
  then obtain f' where "f' \<in> set (rglob w folder)" "read_exif_data w f' = Inl e'"
    using collect_Inl by blast
  with c show ?thesis
    by (auto simp: read_spatial_data_from_folder_def)
qed

theorem scan_aborts_on_unreadable_file_witness:
  "''images/broken.jpg'' \<in> set (rglob broken_world ''images'')
   \<and> read_exif_data broken_world ''images/broken.jpg'' = Inl OSError
   \<and> (\<exists>f' e'. f' \<in> set (rglob broken_world ''images'') \<and> read_exif_data broken_world f' = Inl e'
           \<and> read_spatial_data_from_folder broken_world ''images'' = ([], Inl e'))"
proof -
  have h1: "''images/broken.jpg'' \<in> set (rglob broken_world ''images'')"
    by (simp add: broken_world_def sample_defs path_defs)
  have h2: "read_exif_data broken_world ''images/broken.jpg'' = Inl OSError"
    by (simp add: broken_world_def sample_defs path_defs)
  from h1 h2 scan_aborts_on_unreadable_file [OF h1 h2] show ?thesis by blast
qed

text \<open>
  The folder holds a valid photo and an entry that cannot be opened: the scan does not skip
  the entry, it ends with OSError and the valid photo gets no record.
\<close>

theorem scan_unreadable_file_counterexample:
  "read_spatial_data_from_folder broken_world ''images'' = ([], Inl OSError)"
  by (simp add: read_spatial_data_from_folder_def broken_world_def sample_defs path_defs)

text \<open>
  Claim C2. A hemisphere reference other than N, S, E, W should make the scan skip the
  file and go on. On the folder below, whose first photo has the latitude reference X, the
  conversion prints its message and raises UnboundLocalError; no handler catches it and
  the scan ends there, before the valid photo is looked at.
\<close>

theorem scan_invalid_reference_aborts:
  "read_spatial_data_from_folder badref_world ''images'' =
     ([''Incorrect hemisphere reference. Expecting one of 'N', 'S', 'E' or 'W', got X instead.''],
      Inl UnboundLocalError)"
  by (simp add: read_spatial_data_from_folder_def badref_world_def sample_defs path_defs
      coord_defs upper_X)

text \<open>
  Claim C8, as the code has it. The altitude is read inside the guarded block together
  with latitude and longitude: a photo with valid latitude, longitude and hemisphere
  references but no altitude is skipped. The loop prints the diagnostic line, leaves the
  dictionary as it was and goes on with the remaining files.
\<close>

theorem scan_skips_photo_without_altitude:
  assumes "gps_latitude data = Some [d1, m1, s1]"
    and "gps_latitude_ref data = Some r1"
    and "r1 \<in> {''N'', ''n'', ''S'', ''s'', ''E'', ''e'', ''W'', ''w''}"
    and "gps_longitude data = Some [d2, m2, s2]"
    and "gps_longitude_ref data = Some r2"
    and "r2 \<in> {''N'', ''n'', ''S'', ''s'', ''E'', ''e'', ''W'', ''w''}"
    and "gps_altitude data = None"
  shows "scan_loop w ((f, data) # rest) coord_dict =
           emit [''Image does not contain spatial data or data is invalid.'']
             (scan_loop w rest coord_dict)"
proof -
  have "hemisphere_mul r1 \<noteq> None" "hemisphere_mul r2 \<noteq> None"
    using assms(3,6) by (auto simp: hemisphere_mul_def upper_hemisphere)
  then obtain k1 k2 where "hemisphere_mul r1 = Some k1" "hemisphere_mul r2 = Some k2"
    by auto
  then have "get_decimal_coord_from_exif data =
      ([''Image does not contain spatial data or data is invalid.''], Inl AttributeError)"
    using assms(1,2,4,5,7)
    by (simp add: get_decimal_coord_from_exif_def get_decimal_coord_body_def bind_io_def
        lift_def exif_get_def convert_coords_to_decimal_def getitem_def emit_def caught_def)
  then show ?thesis by (simp add: caught_def)
qed

theorem scan_skips_photo_without_altitude_witness:
  "gps_latitude (paris\<lparr>gps_altitude := None\<rparr>) = Some [48, 30, 0]
   \<and> gps_latitude_ref (paris\<lparr>gps_altitude := None\<rparr>) = Some ''N''
   \<and> gps_longitude (paris\<lparr>gps_altitude := None\<rparr>) = Some [2, 15, 0]
   \<and> gps_longitude_ref (paris\<lparr>gps_altitude := None\<rparr>) = Some ''E''
   \<and> gps_altitude (paris\<lparr>gps_altitude := None\<rparr>) = None
   \<and> scan_loop sample_world [(''images/paris.jpg'', paris\<lparr>gps_altitude := None\<rparr>)] [] =
       ([''Image does not contain spatial data or data is invalid.''], Inr [])"
  using scan_skips_photo_without_altitude
    [of "paris\<lparr>gps_altitude := None\<rparr>" 48 30 0 "''N''" 2 15 0 "''E''"
        sample_world "''images/paris.jpg''" "[]" "[]"]
  by (simp add: paris_def emit_def)

text \<open>
  The first photo of the folder has latitude and longitude and no altitude: the scan
  returns a record for the second photo only.
\<close>

theorem scan_without_altitude_counterexample:
  "read_spatial_data_from_folder noalt_world ''images'' =
     ([''Image does not contain spatial data or data is invalid.''],
      Inr [(''images/trip/rio.jpg'',
            \<lparr>latitude = - (91 / 4), longitude = - (87 / 2), altitude = 5,
             filepath = ''/home/user/images/trip/rio.jpg'',
             timestamp = Some ''2021:05:01 09:30:00''\<rparr>)])"
  by (simp add: read_spatial_data_from_folder_def noalt_world_def sample_defs path_defs
      coord_defs inner_dict_def)



lemma scan_sample:
  "read_spatial_data_from_folder sample_world ''images'' =
     ([''Photo sydney.jpg does not contain datetime information.''], Inr sample_dict)"
  by (simp add: read_spatial_data_from_folder_def sample_world_def sample_dict_def sample_defs
      path_defs coord_defs inner_dict_def)










subsection \<open>Table\<close>

lemma length_sort_values: "length (sort_values df) = length df"
  by (simp add: sort_values_def sum_length_filter_compl [of "\<lambda>r. timestamp r = None" df, symmetric])



lemma build_table_Inr:
  assumes "build_table e res = Inr df"
  obtains ts where "res \<noteq> []" "to_datetime e (map (timestamp \<circ> snd) res) = Inr ts"
    "length ts = length res" "df = sort_values (map2 set_timestamp (map snd res) ts)"
proof -
  from assms have ne: "res \<noteq> []" by (auto simp: build_table_def Let_def split: if_splits)
  from assms ne obtain ts where t: "to_datetime e (map (timestamp \<circ> snd) res) = Inr ts"
    and d: "df = sort_values (map2 set_timestamp (map snd res) ts)"
    by (auto simp: build_table_def Let_def split: sum.splits)
  from t have "length ts = length res"
    by (auto simp: to_datetime_def dest: collect_length)
  with ne t d show ?thesis using that by blast
qed



lemma strptime_samples:
  "sample_strptime ''2021:05:03 10:00:00'' = Inr (Some (2021, 5, 3, 10, 0, 0))"
  "sample_strptime ''2021:05:01 09:30:00'' = Inr (Some (2021, 5, 1, 9, 30, 0))"
  "sample_strptime ''2021-05-03 10:00:00'' = Inl ValueError"
  by (simp_all add: sample_strptime_def is_digit_def is_space_def number_def year_text_def
      month_text_def day_text_def hour_text_def minute_text_def second_text_def
      days_in_month_def carry_second_def Let_def)

lemma build_sample: "build_table sample_env sample_dict = Inr sample_table"
  by (simp add: build_table_def to_datetime_def sample_dict_def sample_table_def sample_env_def
      strptime_samples sort_values_def set_timestamp_def)






lemma set_sort_values: "set (sort_values df) = set df"
  by (auto simp: sort_values_def)

lemma map2_set_timestamp_filepath:
  "length df = length ts \<Longrightarrow> map filepath (map2 set_timestamp df ts) = map filepath df"
  by (induction df ts rule: list_induct2) (auto simp: set_timestamp_def)

text \<open>
  Claim C6. The table the Table Builder returns has one row per record, for the same
  photos, and splits into the rows with a timestamp, in non-decreasing order of timestamp,
  followed by all the rows with a null timestamp: null timestamps are always placed last.
\<close>

theorem build_table_sorted:
  assumes "build_table e res = Inr df"
  shows "\<exists>xs ys. df = xs @ ys \<and> length df = length res
           \<and> filepath ` set df = filepath ` snd ` set res
           \<and> (\<forall>r \<in> set xs. timestamp r \<noteq> None) \<and> (\<forall>r \<in> set ys. timestamp r = None)
           \<and> sorted (map (\<lambda>r. the (timestamp r)) xs)"
proof -
  from assms obtain ts where ts: "length ts = length res"
    and df: "df = sort_values (map2 set_timestamp (map snd res) ts)"
    by (rule build_table_Inr)
  let ?rows = "map2 set_timestamp (map snd res) ts"
  let ?xs = "sort_key (\<lambda>r. the (timestamp r)) (filter (\<lambda>r. timestamp r \<noteq> None) ?rows)"
  let ?ys = "filter (\<lambda>r. timestamp r = None) ?rows"
  have "df = ?xs @ ?ys" by (simp add: df sort_values_def)
  moreover have "length df = length res" using ts by (simp add: df length_sort_values)
  moreover have "filepath ` set df = filepath ` snd ` set res"
  proof -
    have "map filepath ?rows = map filepath (map snd res)"
      by (rule map2_set_timestamp_filepath) (simp add: ts)
    then have "set (map filepath ?rows) = set (map filepath (map snd res))" by (simp only:)
    then show ?thesis
      unfolding df set_sort_values by (simp only: set_map)
  qed
  moreover have "\<forall>r \<in> set ?xs. timestamp r \<noteq> None" by simp
  moreover have "\<forall>r \<in> set ?ys. timestamp r = None" by simp
  moreover have "sorted (map (\<lambda>r. the (timestamp r)) ?xs)" by (rule sorted_sort_key)
  ultimately show ?thesis by blast
qed

theorem build_table_sorted_witness:
  "build_table sample_env sample_dict = Inr sample_table
   \<and> (\<exists>xs ys. sample_table = xs @ ys \<and> length sample_table = length sample_dict
           \<and> filepath ` set sample_table = filepath ` snd ` set sample_dict
           \<and> (\<forall>r \<in> set xs. timestamp r \<noteq> None) \<and> (\<forall>r \<in> set ys. timestamp r = None)
           \<and> sorted (map (\<lambda>r. the (timestamp r)) xs))"
  using build_table_sorted [OF build_sample] build_sample by blast

subsection \<open>Colours\<close>

text \<open>
  The colour scalars of a table of \<open>n\<close> rows: \<open>n\<close> values; for one row the value 0; for more
  than one row the value \<open>i / (n - 1)\<close> at row \<open>i\<close>, strictly increasing from 0 to 1.
\<close>

lemma length_linspace: "length (linspace a b n) = n"
  by (simp add: linspace_def)

lemma linspace_one: "linspace 0 1 1 = [0]"
  by (simp add: linspace_def)

lemma linspace_nth:
  assumes "1 < n" and "i < n"
  shows "linspace 0 1 n ! i = real i / real (n - 1)"
  using assms by (simp add: linspace_def)

lemma linspace_increasing:
  assumes "1 < n" and "i < j" and "j < n"
  shows "linspace 0 1 n ! i < linspace 0 1 n ! j"
  using assms by (simp add: linspace_nth divide_strict_right_mono)

lemma linspace_ends:
  assumes "1 < n"
  shows "linspace 0 1 n ! 0 = 0" and "linspace 0 1 n ! (n - 1) = 1"
  using assms by (simp_all add: linspace_nth)

text \<open>
  Claim C5. For a table without rows the pipeline should produce no rows and end
  normally. On a folder without any photo the dictionary of the scan is empty, the frame
  built from it has no \<^verbatim>\<open>timestamp\<close> column, and \<open>generate_map\<close> ends with
  AttributeError before any colour scalar is computed; no document is written.
\<close>

theorem generate_map_empty_folder:
  "generate_map sample_env (folder_of []) = (folder_of [], Inl AttributeError)"
  by (simp add: generate_map_def read_spatial_data_from_folder_def rglob_def build_table_def
      folder_of_def)

subsection \<open>Map\<close>

lemma collect_circle_marker:
  "collect (circle_marker e) rows = Inr ms \<Longrightarrow>
     map location ms = map (\<lambda>row. (latitude (fst row), longitude (fst row))) rows
     \<and> (\<forall>m \<in> set ms. is_marker m)"
proof (induction rows arbitrary: ms)
  case Nil
  then show ?case by simp
next
  case (Cons row rows)
  then show ?case
    by (auto simp: circle_marker_def split: sum.splits prod.splits)
qed

lemma generate_sample:
  "generate_map sample_env sample_world =
     (sample_result, Inr ''/home/user/map.html'')"
proof -
  have markers: "collect (circle_marker sample_env) (zip sample_table (linspace 0 1 3)) =
      Inr sample_markers"
    by (simp add: sample_table_def sample_markers_def linspace_def upt_conv_Cons
        circle_marker_def as_uri_def startswith_def quote_char_def rgba_to_hex_def hex2_def
        hexdigit_def sample_env_def sample_plasma_def datetime_as_string_def pad2_def)
  have len: "length sample_table = 3"
    by (simp add: sample_table_def)
  have bounds: "Max (latitude ` set sample_table) = 97 / 2"
    "Min (latitude ` set sample_table) = - (135 / 4)"
    "Max (longitude ` set sample_table) = 151"
    "Min (longitude ` set sample_table) = - (87 / 2)"
    by (simp_all add: sample_table_def)
  show ?thesis
    by (simp add: generate_map_def scan_sample build_sample Let_def len markers bounds)
      (simp add: resolve_def startswith_def sample_result_def sample_world_def folder_of_def)
qed

text \<open>
  Claim C7. When \<open>generate_map\<close> completes, the table is not empty and the saved document
  consists of one circle marker per row of the table, at the row's latitude and longitude
  and in the order of the table, followed by a single fit-bounds element whose corners are
  (max latitude + 3, min longitude - 3) and (min latitude - 3, max longitude + 3), taken
  over the rows of the table.
\<close>

theorem generate_map_fit_bounds:
  assumes "generate_map e w = (w', Inr map_file)"
  shows "\<exists>out res df markers.
       read_spatial_data_from_folder w ''images'' = (out, Inr res) \<and> build_table e res = Inr df
     \<and> df \<noteq> []
     \<and> map location markers = map (\<lambda>r. (latitude r, longitude r)) df
     \<and> (\<forall>m \<in> set markers. is_marker m)
     \<and> map_of (documents w') map_file =
         Some (markers @
           [FitBounds (Max (latitude ` set df) + 3, Min (longitude ` set df) - 3)
                      (Min (latitude ` set df) - 3, Max (longitude ` set df) + 3)])"
proof -
  obtain out r where s: "read_spatial_data_from_folder w ''images'' = (out, r)"
    by (cases "read_spatial_data_from_folder w ''images''")
  with assms obtain res where r: "r = Inr res"
    by (cases r) (auto simp: generate_map_def)
  from assms s r obtain df where b: "build_table e res = Inr df"
    by (cases "build_table e res") (auto simp: generate_map_def Let_def)
  from assms s r b obtain markers where
    c: "collect (circle_marker e) (zip df (linspace 0 1 (length df))) = Inr markers"
    by (cases "collect (circle_marker e) (zip df (linspace 0 1 (length df)))")
       (auto simp: generate_map_def Let_def)
  from b have ne: "df \<noteq> []"
    by (elim build_table_Inr) (auto simp: length_sort_values dest: arg_cong [where f = length])
  have z: "map fst (zip df (linspace 0 1 (length df))) = df"
    by (simp add: length_linspace)
  from collect_circle_marker [OF c]
  have "map location markers = map (\<lambda>r. (latitude r, longitude r)) (map fst (zip df (linspace 0 1 (length df))))"
    and m: "\<forall>m \<in> set markers. is_marker m"
    by (simp_all add: o_def)
  then have l: "map location markers = map (\<lambda>r. (latitude r, longitude r)) df"
    by (simp only: z)
  from assms s r b c have
    "map_of (documents w') map_file =
         Some (markers @
           [FitBounds (Max (latitude ` set df) + 3, Min (longitude ` set df) - 3)
                      (Min (latitude ` set df) - 3, Max (longitude ` set df) + 3)])"
    by (auto simp: generate_map_def Let_def update_conv')
  with s r b ne l m show ?thesis by blast
qed

theorem generate_map_fit_bounds_witness:
  "generate_map sample_env sample_world = (sample_result, Inr ''/home/user/map.html'')
   \<and> (\<exists>out res df markers.
       read_spatial_data_from_folder sample_world ''images'' = (out, Inr res)
     \<and> build_table sample_env res = Inr df \<and> df \<noteq> []
     \<and> map location markers = map (\<lambda>r. (latitude r, longitude r)) df
     \<and> (\<forall>m \<in> set markers. is_marker m)
     \<and> map_of (documents sample_result) ''/home/user/map.html'' =
         Some (markers @
           [FitBounds (Max (latitude ` set df) + 3, Min (longitude ` set df) - 3)
                      (Min (latitude ` set df) - 3, Max (longitude ` set df) + 3)]))"
  using generate_map_fit_bounds [OF generate_sample] generate_sample by blast






















subsection \<open>Upload\<close>

text \<open>
  Claim C10. When the file-selection dialog returns the empty string, \<open>upload_image\<close>
  leaves the whole state as it is: no file is moved, the pipeline does not run, no document
  is written, nothing is printed and no dialog is shown.
\<close>

theorem upload_image_cancel: "upload_image e [] w = w"
  by (simp add: upload_image_def)

end
